theory Spec2Isabelle
  imports Complex_Main "HOL-Library.Sublist" "HOL-Library.Multiset" "HOL-Library.Log_Nat"
begin

section \<open>Python values used by the scanner\<close>

text \<open>
  An exception, an instance of \<^verbatim>\<open>Exception\<close>, is represented by its message, the
  text that \<^verbatim>\<open>str(e)\<close> gives. Reading an attribute or evaluating an expression
  inside a \<^verbatim>\<open>try\<close> block with \<^verbatim>\<open>except Exception\<close> either raises or gives a value.
\<close>

type_synonym exn = string

datatype 'a attr = Raises | Val 'a

text \<open>
  What awaiting a call of a device does inside \<^verbatim>\<open>asyncio.gather\<close>: it returns a
  value, or raises an exception, or raises \<^verbatim>\<open>asyncio.CancelledError\<close>, which is a
  \<^verbatim>\<open>BaseException\<close> and not an \<^verbatim>\<open>Exception\<close>: no \<^verbatim>\<open>except Exception\<close> catches it
  and \<^verbatim>\<open>isinstance(result, Exception)\<close> is false of it. (\<^verbatim>\<open>KeyboardInterrupt\<close> and
  \<^verbatim>\<open>SystemExit\<close> end the event loop itself and are no outcome of a call.)
\<close>

datatype 'a awaited = Returned 'a | Raised exn | Cancelled

text \<open>The message of the \<^verbatim>\<open>AttributeError\<close> for a missing attribute of an object.\<close>

definition attribute_error :: "string \<Rightarrow> string \<Rightarrow> exn" where
  "attribute_error cls name =
     [CHR 0x27] @ cls @ [CHR 0x27] @ '' object has no attribute '' @ [CHR 0x27] @ name
       @ [CHR 0x27]"

text \<open>
  Strings are lists of code points below 256. \<^verbatim>\<open>str.upper\<close> and \<^verbatim>\<open>str.lower\<close> are
  modelled on the ASCII letters, \<^verbatim>\<open>str.isspace\<close> on the code points below 256 that
  Python counts as white space.
\<close>

definition upper_char :: "char \<Rightarrow> char" where
  "upper_char c =
     (case map_of (zip ''abcdefghijklmnopqrstuvwxyz'' ''ABCDEFGHIJKLMNOPQRSTUVWXYZ'') c of
        Some C \<Rightarrow> C
      | None \<Rightarrow> c)"

definition lower_char :: "char \<Rightarrow> char" where
  "lower_char c =
     (case map_of (zip ''ABCDEFGHIJKLMNOPQRSTUVWXYZ'' ''abcdefghijklmnopqrstuvwxyz'') c of
        Some C \<Rightarrow> C
      | None \<Rightarrow> c)"

definition upper :: "string \<Rightarrow> string" where
  "upper s = map upper_char s"

definition lower :: "string \<Rightarrow> string" where
  "lower s = map lower_char s"

definition isspace :: "char \<Rightarrow> bool" where
  "isspace c \<longleftrightarrow>
     c \<in> set [CHR 0x09, CHR 0x0A, CHR 0x0B, CHR 0x0C, CHR 0x0D, CHR 0x1C, CHR 0x1D,
                CHR 0x1E, CHR 0x1F, CHR 0x20, CHR 0x85, CHR 0xA0]"

definition strip :: "string \<Rightarrow> string" where
  "strip s = rev (dropWhile isspace (rev (dropWhile isspace s)))"

text \<open>\<^verbatim>\<open>s.replace(old, new)\<close> for a non-empty \<open>old\<close>, scanning from the left.\<close>

fun replace :: "string \<Rightarrow> string \<Rightarrow> string \<Rightarrow> string" where
  "replace old new [] = []"
| "replace old new (c # cs) =
     (if old \<noteq> [] \<and> prefix old (c # cs)
      then new @ replace old new (drop (length old) (c # cs))
      else c # replace old new cs)"

text \<open>\<^verbatim>\<open>sub in s\<close> on strings.\<close>

definition contains :: "string \<Rightarrow> string \<Rightarrow> bool" where
  "contains sub s = sublist sub s"

text \<open>\<^verbatim>\<open>x or d\<close> on strings: the empty string is falsy.\<close>

definition str_or :: "string \<Rightarrow> string \<Rightarrow> string" where
  "str_or x d = (if x = [] then d else x)"

section \<open>Floats\<close>

text \<open>
  A Python float is a number of the format binary64: an integer \<open>m\<close> of magnitude
  below \<open>2 ^ 53\<close>, times a power of two, in units of \<open>1 / 2 ^ 1074\<close>, the smallest
  positive float. \<open>binary64 x\<close> is the float nearest to the real \<open>x\<close>, a tie going to
  the even \<open>m\<close>: of \<open>x\<close> counted in these units all but the leading 53 bits are
  rounded away. It stands for the result of a float operation whose exact result is
  \<open>x\<close>, as long as that is of magnitude at most \<open>max_float\<close>; beyond it Python's
  result is an infinity, which is no real number. Below \<open>min_normal\<close> in magnitude
  fewer than 53 bits are left (underflow).
\<close>

definition round_even :: "real \<Rightarrow> int" where
  "round_even y =
     (let n = \<lfloor>y\<rfloor>
      in if y - of_int n < 1 / 2 then n
         else if 1 / 2 < y - of_int n then n + 1
         else if even n then n else n + 1)"

definition binary64 :: "real \<Rightarrow> real" where
  "binary64 x =
     (let s = x * 2 ^ 1074;
          k = nat (bitlen \<lfloor>\<bar>s\<bar>\<rfloor> - 53)
      in of_int (round_even (s / 2 ^ k)) * 2 ^ k / 2 ^ 1074)"

definition min_normal :: real where
  "min_normal = 1 / 2 ^ 1022"

definition max_float :: real where
  "max_float = (2 - 1 / 2 ^ 52) * 2 ^ 1023"

text \<open>A real that a float operation gives without overflow and without underflow.\<close>

definition in_normal_range :: "real \<Rightarrow> bool" where
  "in_normal_range x \<longleftrightarrow> x = 0 \<or> (min_normal \<le> \<bar>x\<bar> \<and> \<bar>x\<bar> \<le> max_float)"

section \<open>Device data (pyasic objects as the scanner reads them)\<close>

text \<open>
  A Python float is a real number that the float format represents. The result of a
  float operation is the exact result rounded by \<open>fl\<close>, the rounding of the float
  format, which every function that computes on floats takes as a parameter
  (\<open>binary64\<close> is the rounding of Python's floats). A float literal is the rounding of
  the decimal it is written as; \<^verbatim>\<open>1.0\<close> is the number one.
  Formatting a float is left to the two format functions of \<open>py_format\<close>:
  \<open>fmt_2f\<close> is \<^verbatim>\<open>f"{x:.2f}"\<close> and \<open>fmt_str\<close> is \<^verbatim>\<open>f"{x}"\<close>.
\<close>

record py_format =
  fmt_2f :: "real \<Rightarrow> string"
  fmt_str :: "real \<Rightarrow> string"

text \<open>
  The hashrate object: \<open>rate\<close> is the outcome of \<^verbatim>\<open>float(hr.rate)\<close>, \<open>unit\<close> the
  outcome of \<^verbatim>\<open>str(hr.unit)\<close> and \<open>hr_str\<close> is \<^verbatim>\<open>str(hr)\<close>.
\<close>

record hash_rate =
  rate :: "real attr"
  unit :: "string attr"
  hr_str :: string

text \<open>
  A pool entry of \<^verbatim>\<open>data.pools\<close>: \<open>url\<close> is \<open>None\<close> for \<^verbatim>\<open>None\<close> and \<open>Some s\<close> where
  \<^verbatim>\<open>str(pool.url)\<close> is \<open>s\<close>; the flags are optional booleans.
\<close>

record pool_metrics =
  url :: "string option"
  user :: "string option"
  active :: "bool option"
  alive :: "bool option"

text \<open>
  The telemetry snapshot. \<open>is_mining\<close>, \<open>temperature_avg\<close> and \<open>pools\<close> are read inside
  \<^verbatim>\<open>try\<close> blocks, so reading them may raise; \<open>make_str\<close> is the field \<^verbatim>\<open>make\<close>; an empty pool list stands for \<^verbatim>\<open>None\<close>
  as well, since the code only tests its truth value.
\<close>

record miner_data =
  is_mining :: "bool option attr"
  model :: "string option"
  make_str :: "string option"
  temperature_avg :: "real option attr"
  hashrate :: "hash_rate option"
  pools :: "pool_metrics list attr"

text \<open>
  The configuration object of a device. \<open>mining_mode\<close> is \<open>None\<close> when the configuration
  has no such attribute or the attribute is \<^verbatim>\<open>None\<close>; \<open>mm_pools\<close> is \<open>None\<close> when the
  mining mode has no attribute \<^verbatim>\<open>pools\<close>.
\<close>

record pool_config =
  c_url :: string
  c_user :: string
  c_password :: string

record mining_mode =
  mm_pools :: "pool_config list option"

record config =
  mining_mode :: "mining_mode option"

text \<open>
  A device handle: \<open>miner_ip\<close> is \<^verbatim>\<open>str(getattr(miner, "ip", "?"))\<close>, \<open>type_name\<close> is
  \<^verbatim>\<open>type(miner).__name__\<close>, and the other fields are the outcomes of awaiting the
  device's methods: \<open>get_data\<close> and \<open>reboot\<close> return, raise or are cancelled; for
  \<open>get_config\<close> and \<open>send_config\<close>, \<open>Inl\<close> is the exception raised. \<^verbatim>\<open>reboot()\<close> returns
  a boolean that the code does not read.
\<close>

record miner =
  miner_ip :: string
  type_name :: string
  get_data :: "miner_data awaited"
  reboot :: "bool awaited"
  get_config :: "exn + config"
  send_config :: "config \<Rightarrow> exn + unit"

section \<open>Hashrate helpers (core/scanner.py)\<close>

definition factors :: "(real \<Rightarrow> real) \<Rightarrow> (string \<times> real) list" where
  "factors fl =
     [(''H/S'', fl (1 / 10 ^ 12)), (''KH/S'', fl (1 / 10 ^ 9)), (''MH/S'', fl (1 / 10 ^ 6)),
      (''GH/S'', fl (1 / 10 ^ 3)), (''TH/S'', 1), (''PH/S'', fl (10 ^ 3))]"

text \<open>\<^verbatim>\<open>factors.get(unit, 1.0)\<close>\<close>

definition factors_get :: "(real \<Rightarrow> real) \<Rightarrow> string \<Rightarrow> real" where
  "factors_get fl u = (case map_of (factors fl) u of Some f \<Rightarrow> f | None \<Rightarrow> 1)"

text \<open>An exception in the \<^verbatim>\<open>try\<close> block of \<open>hashrate_to_ths\<close> gives \<^verbatim>\<open>0.0\<close>.\<close>

definition hashrate_to_ths :: "(real \<Rightarrow> real) \<Rightarrow> miner_data \<Rightarrow> real" where
  "hashrate_to_ths fl data =
     (case hashrate data of
        None \<Rightarrow> 0
      | Some hr \<Rightarrow>
          (case rate hr of
             Raises \<Rightarrow> 0
           | Val r \<Rightarrow>
               (case unit hr of
                  Raises \<Rightarrow> 0
                | Val u \<Rightarrow> fl (r * factors_get fl (upper u)))))"

definition hashrate_display :: "py_format \<Rightarrow> miner_data \<Rightarrow> string" where
  "hashrate_display fmt data =
     (case hashrate data of
        None \<Rightarrow> ''N/A''
      | Some hr \<Rightarrow>
          (case rate hr of
             Raises \<Rightarrow> hr_str hr
           | Val r \<Rightarrow>
               (case unit hr of
                  Raises \<Rightarrow> hr_str hr
                | Val u \<Rightarrow>
                    (let unit_clean = replace ''/s'' ''H/s'' (replace ''/S'' ''H/s'' u);
                         unit_clean =
                           (if contains ''gh'' (lower u) then ''GH/s''
                            else if contains ''th'' (lower u) then ''TH/s''
                            else if contains ''mh'' (lower u) then ''MH/s''
                            else if contains ''ph'' (lower u) then ''PH/s''
                            else unit_clean)
                     in fmt_2f fmt r @ '' '' @ unit_clean))))"

section \<open>Rows and the scan (core/scanner.py)\<close>

text \<open>One dictionary of \<^verbatim>\<open>all_pools\<close>, with its five keys as fields.\<close>

record pool_dict =
  p_index :: nat
  p_url :: string
  p_user :: string
  p_active :: "bool option"
  p_alive :: "bool option"

record MinerRow =
  ip :: string
  status :: string
  miner_type :: string
  hashrate_str :: string
  hashrate_ths :: real
  temperature :: string
  pool1_url :: string
  worker :: string
  miner_obj :: miner
  data_obj :: "miner_data option"
  all_pools :: "pool_dict list"

text \<open>The messages passed to \<^verbatim>\<open>progress_cb\<close>, by their checkpoint.\<close>

datatype progress =
  Scanning string | Scan_error exn | None_found | Found nat | Completed nat

text \<open>The row appended when the result of \<^verbatim>\<open>get_data()\<close> is an exception.\<close>

definition failed_row :: "miner \<Rightarrow> MinerRow" where
  "failed_row miner =
     \<lparr>ip = miner_ip miner, status = ''Error'', miner_type = type_name miner,
      hashrate_str = ''N/A'', hashrate_ths = 0, temperature = ''N/A'',
      pool1_url = ''N/A'', worker = ''N/A'', miner_obj = miner, data_obj = None,
      all_pools = []\<rparr>"

text \<open>\<^verbatim>\<open>"Minando" if data.is_mining else "Parado"\<close>, and \<^verbatim>\<open>"OK"\<close> when that raises.\<close>

definition row_status :: "miner_data \<Rightarrow> string" where
  "row_status data =
     (case is_mining data of
        Raises \<Rightarrow> ''OK''
      | Val b \<Rightarrow> if b = Some True then ''Minando'' else ''Parado'')"

definition display_type :: "miner \<Rightarrow> miner_data \<Rightarrow> string" where
  "display_type miner data =
     (let model = str_or (case model data of None \<Rightarrow> [] | Some s \<Rightarrow> s) (type_name miner);
          make = (case make_str data of None \<Rightarrow> [] | Some s \<Rightarrow> s)
      in if make \<noteq> [] \<and> model \<noteq> [] then strip (make @ '' '' @ model)
         else str_or model (type_name miner))"

definition row_temperature :: "py_format \<Rightarrow> miner_data \<Rightarrow> string" where
  "row_temperature fmt data =
     (case temperature_avg data of
        Raises \<Rightarrow> ''N/A''
      | Val None \<Rightarrow> ''N/A''
      | Val (Some t) \<Rightarrow> fmt_str fmt t @ [CHR 0xB0, CHR ''C''])"

text \<open>
  The loop over \<^verbatim>\<open>enumerate(data.pools)\<close> that fills \<^verbatim>\<open>all_pools\<close>, with the index
  counted from \<open>idx\<close>.
\<close>

fun pool_dicts :: "nat \<Rightarrow> pool_metrics list \<Rightarrow> pool_dict list" where
  "pool_dicts idx [] = []"
| "pool_dicts idx (pool # rest) =
     \<lparr>p_index = idx,
      p_url = (case url pool of None \<Rightarrow> [] | Some s \<Rightarrow> s),
      p_user = (case user pool of None \<Rightarrow> [] | Some s \<Rightarrow> s),
      p_active = active pool, p_alive = alive pool\<rparr> # pool_dicts (Suc idx) rest"

text \<open>
  The pool block: the result is \<open>(pool1_url, worker, all_pools)\<close>. With no pools, or
  when reading \<^verbatim>\<open>data.pools\<close> raises, the two texts keep their initial \<^verbatim>\<open>"N/A"\<close>.
\<close>

definition row_pools :: "miner_data \<Rightarrow> string \<times> string \<times> pool_dict list" where
  "row_pools data =
     (case pools data of
        Raises \<Rightarrow> (''N/A'', ''N/A'', [])
      | Val ps \<Rightarrow>
          (case pool_dicts 0 ps of
             [] \<Rightarrow> (''N/A'', ''N/A'', [])
           | first # rest \<Rightarrow>
               (let all_pools = first # rest;
                    active_pool =
                      (case find (\<lambda>p. p_active p = Some True) all_pools of
                         None \<Rightarrow> first
                       | Some p \<Rightarrow> p)
                in (str_or (p_url active_pool) ''N/A'', str_or (p_user active_pool) ''N/A'',
                    all_pools))))"

definition data_row :: "(real \<Rightarrow> real) \<Rightarrow> py_format \<Rightarrow> miner \<Rightarrow> miner_data \<Rightarrow> MinerRow" where
  "data_row fl fmt miner data =
     (case row_pools data of
        (pool1, wrk, allp) \<Rightarrow>
          \<lparr>ip = miner_ip miner, status = row_status data,
           miner_type = display_type miner data,
           hashrate_str = hashrate_display fmt data,
           hashrate_ths = hashrate_to_ths fl data,
           temperature = row_temperature fmt data,
           pool1_url = pool1, worker = wrk, miner_obj = miner, data_obj = Some data,
           all_pools = allp\<rparr>)"

text \<open>
  The body of the loop over \<^verbatim>\<open>zip(miners, results)\<close>: the row it appends, or the
  exception it raises. A result that is an \<^verbatim>\<open>Exception\<close> gives the error row. Any
  other result is taken for the snapshot: for the \<^verbatim>\<open>CancelledError\<close> of a cancelled
  call the guarded reads fall back to their defaults, and the read of
  \<^verbatim>\<open>data.hashrate\<close> in \<open>hashrate_display\<close>, which no \<^verbatim>\<open>try\<close> guards, raises.
\<close>

definition make_row ::
  "(real \<Rightarrow> real) \<Rightarrow> py_format \<Rightarrow> miner \<Rightarrow> miner_data awaited \<Rightarrow> exn + MinerRow" where
  "make_row fl fmt miner result =
     (case result of
        Raised e \<Rightarrow> Inr (failed_row miner)
      | Returned data \<Rightarrow> Inr (data_row fl fmt miner data)
      | Cancelled \<Rightarrow> Inl (attribute_error ''CancelledError'' ''hashrate''))"

text \<open>The loop: \<open>rows\<close> are the rows appended so far; an exception ends it.\<close>

fun scan_rows ::
  "(real \<Rightarrow> real) \<Rightarrow> py_format \<Rightarrow> MinerRow list \<Rightarrow> (miner \<times> miner_data awaited) list
     \<Rightarrow> exn + MinerRow list" where
  "scan_rows fl fmt rows [] = Inr rows"
| "scan_rows fl fmt rows ((miner, result) # rest) =
     (case make_row fl fmt miner result of
        Inl e \<Rightarrow> Inl e
      | Inr row \<Rightarrow> scan_rows fl fmt (rows @ [row]) rest)"

text \<open>
  \<open>scan_network fl fmt scan subnet progress_cb\<close>: \<open>scan subnet\<close> is the outcome of
  \<^verbatim>\<open>MinerNetwork.from_subnet(subnet)\<close> followed by \<^verbatim>\<open>network.scan()\<close>, \<open>Inl\<close> the
  exception either of them raises; \<open>progress_cb\<close> tells whether a callback was given.
  The result is the list of messages the callback received, and the returned rows
  (\<open>Inr\<close>) or the exception that \<open>scan_network\<close> raises (\<open>Inl\<close>).
  \<^verbatim>\<open>asyncio.gather\<close> with \<^verbatim>\<open>return_exceptions=True\<close> gives one result per awaited
  call, in the order of the calls: the value returned, or the exception object.
\<close>

definition scan_network ::
  "(real \<Rightarrow> real) \<Rightarrow> py_format \<Rightarrow> (string \<Rightarrow> exn + miner list) \<Rightarrow> string \<Rightarrow> bool
     \<Rightarrow> progress list \<times> (exn + MinerRow list)" where
  "scan_network fl fmt scan subnet progress_cb =
     (let say = (\<lambda>m. if progress_cb then [m] else []);
          rows = []
      in case scan subnet of
           Inl e \<Rightarrow> (say (Scanning subnet) @ say (Scan_error e), Inr rows)
         | Inr miners \<Rightarrow>
             if miners = [] then (say (Scanning subnet) @ say None_found, Inr rows)
             else
               (let results = map get_data miners
                in case scan_rows fl fmt rows (zip miners results) of
                     Inl e \<Rightarrow> (say (Scanning subnet) @ say (Found (length miners)), Inl e)
                   | Inr rows \<Rightarrow>
                       (say (Scanning subnet) @ say (Found (length miners))
                          @ say (Completed (length rows)), Inr rows)))"


section \<open>Control (core/scanner.py)\<close>

text \<open>
  The two dispatch functions start one coroutine per miner with \<^verbatim>\<open>asyncio.gather\<close>;
  each coroutine writes its own entry of the shared dictionary \<^verbatim>\<open>results\<close> when its
  awaited calls have finished. The functions below take the miners in the order in
  which their coroutines finish, which is the order of the writes.
\<close>











section \<open>Scan button and monitor (ui/app.py)\<close>

text \<open>
  The state of \<open>MiningManagerApp\<close> that the scan and monitor handlers read and write,
  with the threads they start. \<open>manual_scans\<close> counts the threads of \<^verbatim>\<open>_start_scan\<close>
  that have not yet returned from \<open>scan_network\<close>, \<open>done_pending\<close> the calls of
  \<^verbatim>\<open>_scan_done\<close> these threads have posted and the main loop has not yet run,
  \<open>monitor_scans\<close> the monitor threads inside \<open>scan_network\<close> and \<open>monitor_waiting\<close> the
  monitor threads between two cycles. \<open>status_var\<close> is the last message a handler set.
\<close>

datatype status_msg =
  Ready | Already_scanning | Scanning_subnet | Monitor_stopped | Monitor_started

record app_state =
  scan_running :: bool
  monitor_active :: bool
  status_var :: status_msg
  manual_scans :: nat
  done_pending :: nat
  monitor_scans :: nat
  monitor_waiting :: nat

text \<open>\<^verbatim>\<open>__init__\<close>\<close>

definition init_state :: app_state where
  "init_state =
     \<lparr>scan_running = False, monitor_active = False, status_var = Ready,
      manual_scans = 0, done_pending = 0, monitor_scans = 0, monitor_waiting = 0\<rparr>"

text \<open>\<^verbatim>\<open>_start_scan\<close>: sets the flag and starts the thread that runs the scan.\<close>

definition start_scan :: "app_state \<Rightarrow> app_state" where
  "start_scan s =
     s\<lparr>scan_running := True, status_var := Scanning_subnet, manual_scans := Suc (manual_scans s)\<rparr>"

text \<open>\<^verbatim>\<open>_on_scan\<close>\<close>

definition on_scan :: "app_state \<Rightarrow> app_state" where
  "on_scan s = (if scan_running s then s\<lparr>status_var := Already_scanning\<rparr> else start_scan s)"

text \<open>\<^verbatim>\<open>_scan_done\<close>\<close>

definition scan_done :: "app_state \<Rightarrow> app_state" where
  "scan_done s = s\<lparr>scan_running := False\<rparr>"

text \<open>\<^verbatim>\<open>_on_monitor_toggle\<close>: stops the monitor, or starts it with a new thread.\<close>

definition on_monitor_toggle :: "app_state \<Rightarrow> app_state" where
  "on_monitor_toggle s =
     (if monitor_active s then s\<lparr>monitor_active := False, status_var := Monitor_stopped\<rparr>
      else s\<lparr>monitor_active := True, status_var := Monitor_started,
             monitor_waiting := Suc (monitor_waiting s)\<rparr>)"

text \<open>
  What can happen next: the two buttons, and the steps of the threads.
  \<^item> \<open>Manual_scan_returns\<close>: a thread of \<^verbatim>\<open>_start_scan\<close> returns from \<open>scan_network\<close>
    and posts \<^verbatim>\<open>_scan_done\<close>;
  \<^item> \<open>Run_scan_done\<close>: the main loop runs a posted \<^verbatim>\<open>_scan_done\<close>;
  \<^item> \<open>Monitor_loop_test\<close>: a monitor thread evaluates \<^verbatim>\<open>while self._monitor_active\<close>
    and either calls \<open>scan_network\<close> or ends;
  \<^item> \<open>Monitor_scan_returns\<close>: a monitor thread returns from \<open>scan_network\<close> and
    starts to wait for the next cycle.
  An event that no thread can perform in the state gives \<open>None\<close>.
\<close>

datatype event =
  On_scan | On_monitor_toggle | Manual_scan_returns | Run_scan_done
  | Monitor_loop_test | Monitor_scan_returns

fun step :: "app_state \<Rightarrow> event \<Rightarrow> app_state option" where
  "step s On_scan = Some (on_scan s)"
| "step s On_monitor_toggle = Some (on_monitor_toggle s)"
| "step s Manual_scan_returns =
     (if manual_scans s = 0 then None
      else Some (s\<lparr>manual_scans := manual_scans s - 1, done_pending := Suc (done_pending s)\<rparr>))"
| "step s Run_scan_done =
     (if done_pending s = 0 then None
      else Some (scan_done (s\<lparr>done_pending := done_pending s - 1\<rparr>)))"
| "step s Monitor_loop_test =
     (if monitor_waiting s = 0 then None
      else if monitor_active s
      then Some (s\<lparr>monitor_waiting := monitor_waiting s - 1,
                    monitor_scans := Suc (monitor_scans s)\<rparr>)
      else Some (s\<lparr>monitor_waiting := monitor_waiting s - 1\<rparr>))"
| "step s Monitor_scan_returns =
     (if monitor_scans s = 0 then None
      else Some (s\<lparr>monitor_scans := monitor_scans s - 1,
                    monitor_waiting := Suc (monitor_waiting s)\<rparr>))"

fun run :: "app_state \<Rightarrow> event list \<Rightarrow> app_state option" where
  "run s [] = Some s"
| "run s (e # es) = (case step s e of None \<Rightarrow> None | Some s' \<Rightarrow> run s' es)"

text \<open>The number of calls of \<open>scan_network\<close> that are running.\<close>

definition scans_in_flight :: "app_state \<Rightarrow> nat" where
  "scans_in_flight s = manual_scans s + monitor_scans s"

section \<open>Notions of the specification\<close>

text \<open>
  The primary pool in the specification's words: the first pool entry whose active
  flag is true; if none is active, the first entry in list order; none for an empty
  list.
\<close>

definition spec_primary_pool :: "pool_metrics list \<Rightarrow> pool_metrics option" where
  "spec_primary_pool ps =
     (case find (\<lambda>p. active p = Some True) ps of
        Some p \<Rightarrow> Some p
      | None \<Rightarrow> (case ps of [] \<Rightarrow> None | p # rest \<Rightarrow> Some p))"

text \<open>The text shown for an optional text: \<^verbatim>\<open>"N/A"\<close> when it is absent or empty.\<close>

definition text_or_na :: "string option \<Rightarrow> string" where
  "text_or_na t = (case t of None \<Rightarrow> ''N/A'' | Some s \<Rightarrow> if s = [] then ''N/A'' else s)"


section \<open>Example devices\<close>

definition no_format :: py_format where
  "no_format = \<lparr>fmt_2f = (\<lambda>x. ''-''), fmt_str = (\<lambda>x. ''-'')\<rparr>"

definition example_pool :: "string option \<Rightarrow> bool option \<Rightarrow> pool_metrics" where
  "example_pool u a = \<lparr>url = u, user = Some ''worker'', active = a, alive = Some True\<rparr>"

definition example_data ::
  "bool option attr \<Rightarrow> hash_rate option \<Rightarrow> pool_metrics list \<Rightarrow> miner_data" where
  "example_data flag hr ps =
     \<lparr>is_mining = flag, model = Some ''S19'', make_str = Some ''Antminer'',
      temperature_avg = Val (Some 61), hashrate = hr, pools = Val ps\<rparr>"

definition example_rate :: "real attr \<Rightarrow> string \<Rightarrow> hash_rate" where
  "example_rate r u = \<lparr>rate = r, unit = Val u, hr_str = ''?''\<rparr>"

definition example_miner ::
  "string \<Rightarrow> miner_data awaited \<Rightarrow> bool awaited \<Rightarrow> config \<Rightarrow> miner" where
  "example_miner a d r cfg =
     \<lparr>miner_ip = a, type_name = ''BMMiner'', get_data = d, reboot = r,
      get_config = Inr cfg, send_config = (\<lambda>cfg. Inr ())\<rparr>"

definition example_fleet :: "miner list" where
  "example_fleet =
     [example_miner ''10.0.0.2''
        (Returned (example_data (Val (Some True)) (Some (example_rate (Val 95) ''TH/s''))
           [example_pool None (Some False), example_pool (Some ''A'') (Some True),
            example_pool None (Some False)]))
        (Returned True) \<lparr>mining_mode = None\<rparr>,
      example_miner ''10.0.0.3'' (Raised ''timed out'') (Raised ''connection refused'')
        \<lparr>mining_mode = Some \<lparr>mm_pools = None\<rparr>\<rparr>,
      example_miner ''10.0.0.4''
        (Returned (example_data (Val (Some False)) None
           [example_pool (Some ''B'') (Some False), example_pool (Some ''C'') None]))
        (Returned True) \<lparr>mining_mode = Some \<lparr>mm_pools = Some []\<rparr>\<rparr>,
      example_miner ''10.0.0.5''
        (Returned (example_data Raises (Some (example_rate Raises ''GH/s'')) []))
        (Raised ''timed out'') \<lparr>mining_mode = None\<rparr>,
      example_miner ''10.0.0.6''
        (Returned (example_data (Val None) (Some (example_rate (Val 13500) ''GH/s'')) []))
        (Returned False) \<lparr>mining_mode = None\<rparr>]"


section \<open>The rows of a scan\<close>

lemma make_row_returns:
  "result \<noteq> Cancelled \<Longrightarrow>
     make_row fl fmt m result = Inr (projr (make_row fl fmt m result))"
  by (cases result) (simp_all add: make_row_def)

lemma scan_rows_returns:
  "\<forall>m\<in>set ms. get_data m \<noteq> Cancelled \<Longrightarrow>
     scan_rows fl fmt acc (zip ms (map get_data ms))
       = Inr (acc @ map (\<lambda>m. projr (make_row fl fmt m (get_data m))) ms)"
proof (induction ms arbitrary: acc)
  case Nil
  then show ?case by simp
next
  case (Cons m ms)
  obtain row where row: "make_row fl fmt m (get_data m) = Inr row"
    using Cons.prems make_row_returns [of "get_data m" fl fmt m] by auto
  have "scan_rows fl fmt (acc @ [row]) (zip ms (map get_data ms))
      = Inr ((acc @ [row]) @ map (\<lambda>m. projr (make_row fl fmt m (get_data m))) ms)"
    using Cons.prems by (intro Cons.IH) simp
  then show ?case
    by (simp add: row)
qed

lemma scan_network_rows:
  assumes "scan subnet = Inr miners" and "\<forall>m\<in>set miners. get_data m \<noteq> Cancelled"
  shows "snd (scan_network fl fmt scan subnet cb)
     = Inr (map (\<lambda>m. projr (make_row fl fmt m (get_data m))) miners)"
proof (cases "miners = []")
  case True
  then show ?thesis using assms(1) by (simp add: scan_network_def)
next
  case False
  then show ?thesis
    using assms(1) scan_rows_returns [OF assms(2), of fl fmt "[]"]
    by (simp add: scan_network_def Let_def)
qed


lemma make_row_returned: "projr (make_row fl fmt m (Returned data)) = data_row fl fmt m data"
  by (simp add: make_row_def)



lemma status_data_row: "status (data_row fl fmt m data) = row_status data"
  by (simp add: data_row_def split: prod.split)

lemma no_cancel_example_fleet: "\<forall>m\<in>set example_fleet. get_data m \<noteq> Cancelled"
  by (simp add: example_fleet_def example_miner_def)




text \<open>
  C3 as stated fails: without a callback the outcome of a scan that raises is the
  outcome of a scan that finds no device, and with a callback the returned rows are
  the same.
\<close>

theorem scan_network_failure_same_as_empty:
  "scan_network (\<lambda>x. x) no_format (\<lambda>subnet. Inl ''invalid subnet'') ''10.0.0.999/24'' False
     = scan_network (\<lambda>x. x) no_format (\<lambda>subnet. Inr []) ''10.0.0.999/24'' False
   \<and> snd (scan_network (\<lambda>x. x) no_format (\<lambda>subnet. Inl ''invalid subnet'') ''10.0.0.999/24'' True)
     = snd (scan_network (\<lambda>x. x) no_format (\<lambda>subnet. Inr []) ''10.0.0.999/24'' True)"
  by (simp add: scan_network_def)

text \<open>
  C3 as amended: a scan that finds no device and a scan that raises both return the
  empty list of rows, and nothing is raised; they differ only in the message passed to
  the callback, when one is given.
\<close>

theorem scan_network_empty_or_failed:
  "(scan subnet = Inr [] \<longrightarrow>
      scan_network fl fmt scan subnet cb
        = (if cb then [Scanning subnet, None_found] else [], Inr []))
   \<and> (\<forall>e. scan subnet = Inl e \<longrightarrow>
      scan_network fl fmt scan subnet cb
        = (if cb then [Scanning subnet, Scan_error e] else [], Inr []))"
  by (simp add: scan_network_def)

theorem scan_network_empty_or_failed_witness:
  "scan_network (\<lambda>x. x) no_format (\<lambda>subnet. Inr []) ''10.0.0.0/24'' True
     = ([Scanning ''10.0.0.0/24'', None_found], Inr [])
   \<and> scan_network (\<lambda>x. x) no_format (\<lambda>subnet. Inl ''invalid subnet'') ''10.0.0.999/24'' True
     = ([Scanning ''10.0.0.999/24'', Scan_error ''invalid subnet''], Inr [])"
  using scan_network_empty_or_failed [of "\<lambda>subnet. Inr []" "''10.0.0.0/24''" "\<lambda>x. x" no_format True]
    scan_network_empty_or_failed [of "\<lambda>subnet. Inl ''invalid subnet''" "''10.0.0.999/24''"
      "\<lambda>x. x" no_format True]
  by simp

lemma status_rows:
  assumes "scan subnet = Inr miners" and "\<forall>m\<in>set miners. get_data m \<noteq> Cancelled"
    and "i < length miners"
  shows "\<exists>rows. snd (scan_network fl fmt scan subnet cb) = Inr rows
       \<and> status (rows ! i) =
           (case get_data (miners ! i) of
              Raised e \<Rightarrow> ''Error''
            | Returned data \<Rightarrow> row_status data
            | Cancelled \<Rightarrow> [])"
proof -
  have "get_data (miners ! i) \<noteq> Cancelled"
    using assms(2,3) by simp
  then show ?thesis
    using assms(3)
    by (cases "get_data (miners ! i)")
      (simp_all add: scan_network_rows [of scan subnet miners, OF assms(1,2)] make_row_def failed_row_def status_data_row)
qed

text \<open>
  C4 as stated fails: a device whose mining flag reads as \<^verbatim>\<open>None\<close>, which is no explicit
  false, has the status \<^verbatim>\<open>"Parado"\<close> of a stopped device, and a device whose flag
  cannot be read has the status \<^verbatim>\<open>"OK"\<close>; no status of the code says unknown.
\<close>

theorem scan_network_absent_flag_stopped:
  "get_data (example_fleet ! 4)
     = Returned (example_data (Val None) (Some (example_rate (Val 13500) ''GH/s'')) [])
   \<and> is_mining (example_data (Val None) (Some (example_rate (Val 13500) ''GH/s'')) []) = Val None
   \<and> status (projr (snd (scan_network (\<lambda>x. x) no_format (\<lambda>subnet. Inr example_fleet)
        ''10.0.0.0/24'' True)) ! 4) = ''Parado''
   \<and> get_data (example_fleet ! 3)
     = Returned (example_data Raises (Some (example_rate Raises ''GH/s'')) [])
   \<and> is_mining (example_data Raises (Some (example_rate Raises ''GH/s'')) []) = Raises
   \<and> status (projr (snd (scan_network (\<lambda>x. x) no_format (\<lambda>subnet. Inr example_fleet)
        ''10.0.0.0/24'' True)) ! 3) = ''OK''"
  by (simp add: scan_network_rows [of "\<lambda>subnet. Inr example_fleet" _ example_fleet,
        OF _ no_cancel_example_fleet])
    (simp add: make_row_def status_data_row row_status_def example_fleet_def example_miner_def
      example_data_def)

text \<open>
  C4 as amended: when no query is cancelled, the status of the row of a device is
  \<^verbatim>\<open>"Error"\<close> when the fetch of its snapshot raised, \<^verbatim>\<open>"Minando"\<close> when the mining
  flag is true, \<^verbatim>\<open>"Parado"\<close> when it is false or \<^verbatim>\<open>None\<close>, and \<^verbatim>\<open>"OK"\<close> when reading
  the flag raises.
\<close>

theorem scan_network_status:
  assumes "scan subnet = Inr miners" and "\<forall>m\<in>set miners. get_data m \<noteq> Cancelled"
    and "i < length miners"
  shows "\<exists>rows. snd (scan_network fl fmt scan subnet cb) = Inr rows
       \<and> (\<forall>e. get_data (miners ! i) = Raised e \<longrightarrow> status (rows ! i) = ''Error'')
       \<and> (\<forall>data. get_data (miners ! i) = Returned data \<longrightarrow>
             status (rows ! i) =
               (case is_mining data of
                  Val (Some True) \<Rightarrow> ''Minando''
                | Val (Some False) \<Rightarrow> ''Parado''
                | Val None \<Rightarrow> ''Parado''
                | Raises \<Rightarrow> ''OK''))"
proof -
  obtain rows where rows: "snd (scan_network fl fmt scan subnet cb) = Inr rows"
    "status (rows ! i) =
       (case get_data (miners ! i) of
          Raised e \<Rightarrow> ''Error''
        | Returned data \<Rightarrow> row_status data
        | Cancelled \<Rightarrow> [])"
    using status_rows [of scan subnet miners i, OF assms] by blast
  have "\<forall>e. get_data (miners ! i) = Raised e \<longrightarrow> status (rows ! i) = ''Error''"
    using rows(2) by simp
  moreover have "\<forall>data. get_data (miners ! i) = Returned data \<longrightarrow>
      status (rows ! i) =
        (case is_mining data of
           Val (Some True) \<Rightarrow> ''Minando''
         | Val (Some False) \<Rightarrow> ''Parado''
         | Val None \<Rightarrow> ''Parado''
         | Raises \<Rightarrow> ''OK'')"
    using rows(2) by (simp add: row_status_def split: attr.split option.split bool.split)
  ultimately show ?thesis using rows(1) by blast
qed

theorem scan_network_status_witness:
  "status (projr (snd (scan_network (\<lambda>x. x) no_format (\<lambda>subnet. Inr example_fleet)
      ''10.0.0.0/24'' True)) ! 0) = ''Minando''
   \<and> status (projr (snd (scan_network (\<lambda>x. x) no_format (\<lambda>subnet. Inr example_fleet)
      ''10.0.0.0/24'' True)) ! 1) = ''Error''
   \<and> status (projr (snd (scan_network (\<lambda>x. x) no_format (\<lambda>subnet. Inr example_fleet)
      ''10.0.0.0/24'' True)) ! 2) = ''Parado''
   \<and> status (projr (snd (scan_network (\<lambda>x. x) no_format (\<lambda>subnet. Inr example_fleet)
      ''10.0.0.0/24'' True)) ! 3) = ''OK''"
proof -
  let ?rows = "projr (snd (scan_network (\<lambda>x. x) no_format (\<lambda>subnet. Inr example_fleet)
      ''10.0.0.0/24'' True))"
  have size: "(0::nat) < length example_fleet" "(1::nat) < length example_fleet"
    "(2::nat) < length example_fleet" "(3::nat) < length example_fleet"
    by (simp_all add: example_fleet_def)
  have d: "get_data (example_fleet ! 0)
      = Returned (example_data (Val (Some True)) (Some (example_rate (Val 95) ''TH/s''))
           [example_pool None (Some False), example_pool (Some ''A'') (Some True),
            example_pool None (Some False)])"
    "get_data (example_fleet ! 1) = Raised ''timed out''"
    "get_data (example_fleet ! 2)
      = Returned (example_data (Val (Some False)) None
           [example_pool (Some ''B'') (Some False), example_pool (Some ''C'') None])"
    "get_data (example_fleet ! 3)
      = Returned (example_data Raises (Some (example_rate Raises ''GH/s'')) [])"
    by (simp_all add: example_fleet_def example_miner_def)
  have flag: "is_mining (example_data flag hr ps) = flag" for flag hr ps
    by (simp add: example_data_def)
  have "status (?rows ! 0) = ''Minando''"
    using scan_network_status [of "\<lambda>subnet. Inr example_fleet" "''10.0.0.0/24''" example_fleet 0
        "\<lambda>x. x" no_format True, OF _ no_cancel_example_fleet size(1)]
    unfolding d by (auto simp: flag)
  moreover have "status (?rows ! 1) = ''Error''"
    using scan_network_status [of "\<lambda>subnet. Inr example_fleet" "''10.0.0.0/24''" example_fleet 1
        "\<lambda>x. x" no_format True, OF _ no_cancel_example_fleet size(2)]
    unfolding d by auto
  moreover have "status (?rows ! 2) = ''Parado''"
    using scan_network_status [of "\<lambda>subnet. Inr example_fleet" "''10.0.0.0/24''" example_fleet 2
        "\<lambda>x. x" no_format True, OF _ no_cancel_example_fleet size(3)]
    unfolding d by (auto simp: flag)
  moreover have "status (?rows ! 3) = ''OK''"
    using scan_network_status [of "\<lambda>subnet. Inr example_fleet" "''10.0.0.0/24''" example_fleet 3
        "\<lambda>x. x" no_format True, OF _ no_cancel_example_fleet size(4)]
    unfolding d by (auto simp: flag)
  ultimately show ?thesis by blast
qed

section \<open>Primary pool\<close>

lemma find_pool_dicts:
  "map_option (\<lambda>d. (p_url d, p_user d)) (find (\<lambda>p. p_active p = Some True) (pool_dicts i ps))
     = map_option (\<lambda>p. (case url p of None \<Rightarrow> [] | Some s \<Rightarrow> s,
                           case user p of None \<Rightarrow> [] | Some s \<Rightarrow> s))
         (find (\<lambda>p. active p = Some True) ps)"
  by (induction ps arbitrary: i) simp_all

lemma row_pools_url:
  assumes "pools data = Val ps"
  shows "fst (row_pools data)
     = (case spec_primary_pool ps of None \<Rightarrow> ''N/A'' | Some p \<Rightarrow> text_or_na (url p))"
proof (cases ps)
  case Nil
  then show ?thesis using assms by (simp add: row_pools_def spec_primary_pool_def)
next
  case (Cons p rest)
  show ?thesis
    using assms find_pool_dicts [of 0 ps] unfolding Cons
    by (auto simp add: row_pools_def spec_primary_pool_def text_or_na_def str_or_def Let_def
        split: option.splits if_splits)
qed

lemma row_pools_user:
  assumes "pools data = Val ps"
  shows "fst (snd (row_pools data))
     = (case spec_primary_pool ps of None \<Rightarrow> ''N/A'' | Some p \<Rightarrow> text_or_na (user p))"
proof (cases ps)
  case Nil
  then show ?thesis using assms by (simp add: row_pools_def spec_primary_pool_def)
next
  case (Cons p rest)
  show ?thesis
    using assms find_pool_dicts [of 0 ps] unfolding Cons
    by (auto simp add: row_pools_def spec_primary_pool_def text_or_na_def str_or_def Let_def
        split: option.splits if_splits)
qed

lemma pools_data_row:
  "pool1_url (data_row fl fmt m data) = fst (row_pools data)"
  "worker (data_row fl fmt m data) = fst (snd (row_pools data))"
  by (simp_all add: data_row_def split: prod.split)

text \<open>
  C5: when no query is cancelled, in the row of a snapshot the primary pool is the
  first pool entry whose active flag is true, or the first entry when none is active,
  and its URL and worker are shown (\<^verbatim>\<open>"N/A"\<close> for an absent or empty text); with an
  empty pool list both fields are \<^verbatim>\<open>"N/A"\<close>.
\<close>

theorem scan_network_primary_pool:
  assumes "scan subnet = Inr miners" and "\<forall>m\<in>set miners. get_data m \<noteq> Cancelled"
    and "i < length miners"
    and "get_data (miners ! i) = Returned data" and "pools data = Val ps"
  shows "\<exists>rows. snd (scan_network fl fmt scan subnet cb) = Inr rows
       \<and> pool1_url (rows ! i)
           = (case spec_primary_pool ps of None \<Rightarrow> ''N/A'' | Some p \<Rightarrow> text_or_na (url p))
       \<and> worker (rows ! i)
           = (case spec_primary_pool ps of None \<Rightarrow> ''N/A'' | Some p \<Rightarrow> text_or_na (user p))
       \<and> (ps = [] \<longleftrightarrow> spec_primary_pool ps = None)"
proof -
  have "ps = [] \<longleftrightarrow> spec_primary_pool ps = None"
    by (simp add: spec_primary_pool_def split: option.split list.split)
  then show ?thesis
    using assms(3-5)
    by (simp add: scan_network_rows [of scan subnet miners, OF assms(1,2)] make_row_returned pools_data_row
        row_pools_url row_pools_user)
qed

theorem scan_network_primary_pool_witness:
  "pool1_url (projr (snd (scan_network (\<lambda>x. x) no_format (\<lambda>subnet. Inr example_fleet)
      ''10.0.0.0/24'' True)) ! 0) = ''A''
   \<and> pool1_url (projr (snd (scan_network (\<lambda>x. x) no_format (\<lambda>subnet. Inr example_fleet)
      ''10.0.0.0/24'' True)) ! 2) = ''B''
   \<and> pool1_url (projr (snd (scan_network (\<lambda>x. x) no_format (\<lambda>subnet. Inr example_fleet)
      ''10.0.0.0/24'' True)) ! 4) = ''N/A''
   \<and> worker (projr (snd (scan_network (\<lambda>x. x) no_format (\<lambda>subnet. Inr example_fleet)
      ''10.0.0.0/24'' True)) ! 4) = ''N/A''"
proof -
  have size: "(0::nat) < length example_fleet" "(2::nat) < length example_fleet"
    "(4::nat) < length example_fleet"
    by (simp_all add: example_fleet_def)
  have d0: "get_data (example_fleet ! 0)
      = Returned (example_data (Val (Some True)) (Some (example_rate (Val 95) ''TH/s''))
           [example_pool None (Some False), example_pool (Some ''A'') (Some True),
            example_pool None (Some False)])"
    and d2: "get_data (example_fleet ! 2)
      = Returned (example_data (Val (Some False)) None
           [example_pool (Some ''B'') (Some False), example_pool (Some ''C'') None])"
    and d4: "get_data (example_fleet ! 4)
      = Returned (example_data (Val None) (Some (example_rate (Val 13500) ''GH/s'')) [])"
    by (simp_all add: example_fleet_def example_miner_def)
  have p: "pools (example_data flag hr ps) = Val ps" for flag hr ps
    by (simp add: example_data_def)
  show ?thesis
    using scan_network_primary_pool [of "\<lambda>subnet. Inr example_fleet" "''10.0.0.0/24''"
        example_fleet 0 _ _ "\<lambda>x. x" no_format True, OF _ no_cancel_example_fleet size(1) d0 p]
      scan_network_primary_pool [of "\<lambda>subnet. Inr example_fleet" "''10.0.0.0/24''"
        example_fleet 2 _ _ "\<lambda>x. x" no_format True, OF _ no_cancel_example_fleet size(2) d2 p]
      scan_network_primary_pool [of "\<lambda>subnet. Inr example_fleet" "''10.0.0.0/24''"
        example_fleet 4 _ _ "\<lambda>x. x" no_format True, OF _ no_cancel_example_fleet size(3) d4 p]
    by (auto simp add: spec_primary_pool_def text_or_na_def example_pool_def)
qed

section \<open>Hashrate\<close>

text \<open>
  C6: the normalized hashrate of a reading is the float product of the rate and the
  factor of its unit: \<^verbatim>\<open>1e-12\<close> for H/s, \<^verbatim>\<open>1e-9\<close> for KH/s, \<^verbatim>\<open>1e-6\<close> for MH/s,
  \<^verbatim>\<open>1e-3\<close> for GH/s, \<^verbatim>\<open>1.0\<close> for TH/s, \<^verbatim>\<open>1e3\<close> for PH/s, the unit compared in upper
  case, and \<^verbatim>\<open>1.0\<close> for any other unit.
\<close>

theorem hashrate_to_ths_factor:
  assumes "hashrate data = Some hr" and "rate hr = Val r" and "unit hr = Val u"
  shows "hashrate_to_ths fl data =
     fl (r * (if upper u = ''H/S'' then fl (1 / 10 ^ 12)
              else if upper u = ''KH/S'' then fl (1 / 10 ^ 9)
              else if upper u = ''MH/S'' then fl (1 / 10 ^ 6)
              else if upper u = ''GH/S'' then fl (1 / 10 ^ 3)
              else if upper u = ''TH/S'' then 1
              else if upper u = ''PH/S'' then fl (10 ^ 3)
              else 1))"
  using assms by (simp add: hashrate_to_ths_def factors_get_def factors_def)

theorem hashrate_to_ths_factor_witness:
  "hashrate_to_ths (\<lambda>x. x)
     (example_data (Val (Some True)) (Some (example_rate (Val 13500) ''GH/s'')) []) = 27 / 2
   \<and> hashrate_to_ths (\<lambda>x. x)
     (example_data (Val (Some True)) (Some (example_rate (Val 7) ''Sol/s'')) []) = 7"
  using hashrate_to_ths_factor [of
      "example_data (Val (Some True)) (Some (example_rate (Val 13500) ''GH/s'')) []"
      "example_rate (Val 13500) ''GH/s''" 13500 "''GH/s''" "\<lambda>x. x"]
    hashrate_to_ths_factor [of
      "example_data (Val (Some True)) (Some (example_rate (Val 7) ''Sol/s'')) []"
      "example_rate (Val 7) ''Sol/s''" 7 "''Sol/s''" "\<lambda>x. x"]
  by (simp add: example_data_def example_rate_def upper_def upper_char_def)

lemma round_even_error: "\<bar>of_int (round_even y) - y\<bar> \<le> 1 / 2"
proof -
  have "of_int \<lfloor>y\<rfloor> \<le> y" "y < of_int \<lfloor>y\<rfloor> + 1" by linarith+
  then show ?thesis
    by (auto simp: round_even_def Let_def)
qed

lemma round_even_of_int: "round_even (of_int n) = n"
  by (simp add: round_even_def)

lemma binary64_zero: "binary64 0 = 0"
  by (simp add: binary64_def round_even_def)

lemma pow_1074: "(2::real) ^ 1074 = 2 ^ 1022 * 2 ^ 52"
  by (simp only: power_add [symmetric]) simp

lemma binary64_scaled:
  "binary64 x = of_int (round_even (x * 2 ^ 1074 / 2 ^ nat (bitlen \<lfloor>\<bar>x * 2 ^ 1074\<bar>\<rfloor> - 53)))
     * 2 ^ nat (bitlen \<lfloor>\<bar>x * 2 ^ 1074\<bar>\<rfloor> - 53) / 2 ^ 1074"
  by (simp only: binary64_def Let_def)

lemma binary64_error:
  assumes "min_normal \<le> \<bar>x\<bar>"
  shows "\<bar>binary64 x - x\<bar> \<le> \<bar>x\<bar> / 2 ^ 53"
proof -
  define q :: real where "q = 2 ^ 1074"
  define s where "s = x * q"
  define n where "n = \<lfloor>\<bar>s\<bar>\<rfloor>"
  define k where "k = nat (bitlen n - 53)"
  have q_pos: "0 < q" by (simp only: q_def zero_less_power zero_less_numeral)
  have q_split: "q = 2 ^ 1022 * 2 ^ 52" unfolding q_def by (rule pow_1074)
  have s_ge: "2 ^ 52 \<le> \<bar>s\<bar>"
  proof -
    have "(1 / 2 ^ 1022) * q \<le> \<bar>x\<bar> * q"
      using assms q_pos unfolding min_normal_def by (intro mult_right_mono) simp_all
    moreover have "(1 / 2 ^ 1022) * q = (2::real) ^ 52"
      unfolding q_split by (simp only: times_divide_eq_left mult_1 nonzero_mult_div_cancel_left
          power_not_zero zero_neq_numeral not_False_eq_True)
    moreover have "\<bar>s\<bar> = \<bar>x\<bar> * q"
      using q_pos by (simp add: s_def abs_mult)
    ultimately show ?thesis by simp
  qed
  then have n_ge: "2 ^ 52 \<le> n"
    unfolding n_def by (simp add: le_floor_iff)
  then have n_pos: "0 < n" by (smt (verit) zero_less_power)
  have b_ge: "53 \<le> bitlen n"
    using n_ge by (simp add: bitlen_ge_iff_power)
  have "2 ^ nat (bitlen n - 1) \<le> n"
    using bitlen_bounds [OF n_pos] by simp
  moreover have "nat (bitlen n - 1) = k + 52"
    using b_ge by (simp add: k_def)
  ultimately have "2 ^ (k + 52) \<le> n" by simp
  then have "(2::real) ^ (k + 52) \<le> of_int n"
    by (metis of_int_le_iff of_int_numeral of_int_power)
  also have "\<dots> \<le> \<bar>s\<bar>" unfolding n_def by linarith
  finally have low: "(2::real) ^ (k + 52) \<le> \<bar>s\<bar>" .
  define r where "r = real_of_int (round_even (s / 2 ^ k))"
  have b: "binary64 x = r * 2 ^ k / q"
    unfolding r_def k_def n_def s_def q_def by (rule binary64_scaled)
  have x: "x = (s / 2 ^ k) * 2 ^ k / q"
    using q_pos by (simp add: s_def)
  have "binary64 x - x = r * 2 ^ k / q - (s / 2 ^ k) * 2 ^ k / q"
    using b x by linarith
  also have "\<dots> = (r - s / 2 ^ k) * 2 ^ k / q"
    by (simp only: left_diff_distrib diff_divide_distrib)
  finally have "\<bar>binary64 x - x\<bar> = \<bar>r - s / 2 ^ k\<bar> * 2 ^ k / q"
    using q_pos by (simp add: abs_mult)
  also have "\<dots> \<le> (1 / 2) * 2 ^ k / q"
    using round_even_error [of "s / 2 ^ k"] q_pos unfolding r_def
    by (intro divide_right_mono mult_right_mono) simp_all
  also have "\<dots> = 2 ^ (k + 52) / 2 ^ 53 / q"
    by (simp add: power_add)
  also have "\<dots> \<le> \<bar>s\<bar> / 2 ^ 53 / q"
    using low q_pos by (intro divide_right_mono) simp_all
  also have "\<dots> = \<bar>x\<bar> / 2 ^ 53"
    using q_pos by (simp add: s_def abs_mult)
  finally show ?thesis .
qed

lemma binary64_subnormal:
  assumes "\<bar>x * 2 ^ 1074\<bar> < 2 ^ 53"
  shows "binary64 x = of_int (round_even (x * 2 ^ 1074)) / 2 ^ 1074"
proof -
  have "\<lfloor>\<bar>x * 2 ^ 1074\<bar>\<rfloor> < 2 ^ 53"
    using assms by (simp add: floor_less_iff)
  then have "bitlen \<lfloor>\<bar>x * 2 ^ 1074\<bar>\<rfloor> \<le> 53"
    by (simp add: bitlen_le_iff_power)
  then have "nat (bitlen \<lfloor>\<bar>x * 2 ^ 1074\<bar>\<rfloor> - 53) = 0"
    by simp
  then show ?thesis
    by (simp only: binary64_scaled power_0 div_by_1 mult_1_right)
qed

lemma binary64_exact:
  assumes "\<bar>m\<bar> < 2 ^ 53"
  shows "binary64 (of_int m * 2 ^ j / 2 ^ 1074) = of_int m * 2 ^ j / 2 ^ 1074"
proof (cases "m = 0")
  case True
  then show ?thesis by (simp add: binary64_zero)
next
  case False
  define x :: real where "x = of_int m * 2 ^ j / 2 ^ 1074"
  have s: "x * 2 ^ 1074 = of_int (m * 2 ^ j)"
    by (simp add: x_def)
  have "\<bar>x * 2 ^ 1074\<bar> = of_int (\<bar>m\<bar> * 2 ^ j)"
    unfolding s by (simp add: abs_mult)
  then have n: "\<lfloor>\<bar>x * 2 ^ 1074\<bar>\<rfloor> = \<bar>m\<bar> * 2 ^ j"
    by (simp only: floor_of_int)
  have pos: "0 < \<bar>m\<bar>" using False by simp
  have "bitlen \<bar>m\<bar> \<le> 53"
    using assms by (simp add: bitlen_le_iff_power)
  moreover have "0 \<le> bitlen \<bar>m\<bar>" by (rule bitlen_nonneg)
  ultimately obtain d where d: "nat (bitlen \<lfloor>\<bar>x * 2 ^ 1074\<bar>\<rfloor> - 53) + d = j"
    unfolding n bitlen_pow2 [OF pos]
    by (metis add.commute le_add_diff_inverse nat_le_iff add_le_cancel_left diff_le_eq)
  define k where "k = nat (bitlen \<lfloor>\<bar>x * 2 ^ 1074\<bar>\<rfloor> - 53)"
  have j: "j = k + d" using d by (simp add: k_def)
  have "x * 2 ^ 1074 / 2 ^ k = of_int (m * 2 ^ d)"
    unfolding s j by (simp add: power_add)
  then have "of_int (round_even (x * 2 ^ 1074 / 2 ^ k)) * 2 ^ k / 2 ^ 1074
      = (of_int (m * 2 ^ d) :: real) * 2 ^ k / 2 ^ 1074"
    by (simp only: round_even_of_int)
  also have "\<dots> = x"
    unfolding x_def j by (simp add: power_add)
  finally show ?thesis
    unfolding x_def [symmetric] k_def by (simp only: binary64_scaled)
qed

lemma binary64_1000: "binary64 1000 = 1000"
proof -
  have "binary64 (of_int 1000 * 2 ^ 1074 / 2 ^ 1074) = of_int 1000 * 2 ^ 1074 / 2 ^ 1074"
    by (rule binary64_exact) simp
  then show ?thesis by simp
qed

lemma binary64_thousand: "binary64 (10 ^ 3) = 10 ^ 3"
  using binary64_1000 by simp

lemma binary64_rel_error:
  assumes "in_normal_range x"
  shows "\<bar>binary64 x - x\<bar> \<le> (1 / 2 ^ 53) * \<bar>x\<bar>"
proof (cases "x = 0")
  case True
  then show ?thesis by (simp add: binary64_zero)
next
  case False
  then have "min_normal \<le> \<bar>x\<bar>"
    using assms by (simp add: in_normal_range_def)
  then show ?thesis
    using binary64_error [of x] by simp
qed

lemma binary64_nonzero:
  assumes "min_normal \<le> \<bar>c\<bar>"
  shows "binary64 c \<noteq> 0"
proof
  assume "binary64 c = 0"
  then have "\<bar>c\<bar> \<le> \<bar>c\<bar> / 2 ^ 53"
    using binary64_error [OF assms] by simp
  moreover have "0 < min_normal"
    by (simp add: min_normal_def)
  then have "0 < \<bar>c\<bar>"
    using assms by linarith
  ultimately show False by (simp add: field_simps)
qed

lemma factors_binary64_nonzero:
  assumes "map_of (factors binary64) k = Some f"
  shows "f \<noteq> 0"
proof -
  have "binary64 (1 / 10 ^ 12) \<noteq> 0" "binary64 (1 / 10 ^ 9) \<noteq> 0" "binary64 (1 / 10 ^ 6) \<noteq> 0"
    "binary64 (1 / 10 ^ 3) \<noteq> 0" "binary64 (10 ^ 3) \<noteq> 0"
    by (rule binary64_nonzero, simp add: min_normal_def)+
  with assms show ?thesis
    by (auto simp: factors_def split: if_splits)
qed

lemma round_trip_bound:
  fixes u f v a b :: real
  assumes "0 \<le> u" and f: "f \<noteq> 0"
    and a: "\<bar>a - v / f\<bar> \<le> u * \<bar>v / f\<bar>" and b: "\<bar>b - a * f\<bar> \<le> u * \<bar>a * f\<bar>"
  shows "\<bar>b - v\<bar> \<le> (2 * u + u\<^sup>2) * \<bar>v\<bar>"
proof -
  have "\<bar>a - v / f\<bar> * \<bar>f\<bar> \<le> u * \<bar>v / f\<bar> * \<bar>f\<bar>"
    using a by (rule mult_right_mono) simp
  moreover have "\<bar>a - v / f\<bar> * \<bar>f\<bar> = \<bar>a * f - v\<bar>"
    using f by (simp add: abs_mult [symmetric] left_diff_distrib)
  moreover have "u * \<bar>v / f\<bar> * \<bar>f\<bar> = u * \<bar>v\<bar>"
    using f by simp
  ultimately have 1: "\<bar>a * f - v\<bar> \<le> u * \<bar>v\<bar>" by simp
  have "\<bar>a * f\<bar> \<le> \<bar>a * f - v\<bar> + \<bar>v\<bar>" by linarith
  with 1 have 2: "\<bar>a * f\<bar> \<le> (1 + u) * \<bar>v\<bar>" by (simp add: algebra_simps)
  have "u * \<bar>a * f\<bar> \<le> u * ((1 + u) * \<bar>v\<bar>)"
    using 2 assms(1) by (rule mult_left_mono)
  with b have 3: "\<bar>b - a * f\<bar> \<le> u * ((1 + u) * \<bar>v\<bar>)" by linarith
  have "\<bar>b - v\<bar> \<le> \<bar>b - a * f\<bar> + \<bar>a * f - v\<bar>" by linarith
  also have "\<dots> \<le> u * ((1 + u) * \<bar>v\<bar>) + u * \<bar>v\<bar>" using 1 3 by linarith
  also have "\<dots> = (2 * u + u\<^sup>2) * \<bar>v\<bar>" by (simp add: algebra_simps power2_eq_square)
  finally show ?thesis .
qed

text \<open>
  C7 as stated fails for a value so small that the division underflows: the float
  \<open>v = 2024 / 2 ^ 1074\<close> (Python's \<^verbatim>\<open>1e-320\<close>), converted to PH/s and normalized by
  \<open>hashrate_to_ths\<close>, comes back as \<open>2000 / 2 ^ 1074\<close>, off by more than one percent.
\<close>

theorem hashrate_round_trip_subnormal:
  "hashrate_to_ths binary64
     (example_data (Val (Some True))
        (Some (example_rate (Val (binary64 (2024 / 2 ^ 1074 / binary64 (10 ^ 3)))) ''PH/s'')) [])
     = 2000 / 2 ^ 1074
   \<and> binary64 (2024 / 2 ^ 1074) = 2024 / 2 ^ 1074
   \<and> \<bar>(2024::real) / 2 ^ 1074\<bar> / 100 < \<bar>2000 / 2 ^ 1074 - 2024 / 2 ^ 1074\<bar>"
proof -
  define q :: real where "q = 2 ^ 1074"
  have q: "0 < q" by (simp only: q_def zero_less_power zero_less_numeral)
  have v: "binary64 (2024 / q) = 2024 / q"
    using binary64_exact [of 2024 0] by (simp add: q_def)
  have "\<bar>2024 / q / 10 ^ 3 * q\<bar> < 2 ^ 53"
    using q by simp
  then have "binary64 (2024 / q / 10 ^ 3) = of_int (round_even (2024 / q / 10 ^ 3 * q)) / q"
    unfolding q_def by (rule binary64_subnormal)
  moreover have "2024 / q / 10 ^ 3 * q = 2024 / 1000"
    using q by simp
  moreover have "round_even (2024 / 1000) = 2"
    by (simp add: round_even_def)
  ultimately have a: "binary64 (2024 / q / 10 ^ 3) = 2 / q"
    by simp
  have b: "binary64 (2 / q * 10 ^ 3) = 2000 / q"
    using binary64_exact [of 2000 0] by (simp add: q_def)
  have "hashrate_to_ths binary64
     (example_data (Val (Some True))
        (Some (example_rate (Val (binary64 (2024 / q / binary64 (10 ^ 3)))) ''PH/s'')) [])
     = binary64 (binary64 (2024 / q / binary64 (10 ^ 3)) * binary64 (10 ^ 3))"
    by (simp add: hashrate_to_ths_def example_data_def example_rate_def factors_get_def
        factors_def upper_def upper_char_def)
  also have "\<dots> = 2000 / q"
    by (simp only: binary64_thousand a b)
  finally have r: "hashrate_to_ths binary64
     (example_data (Val (Some True))
        (Some (example_rate (Val (binary64 (2024 / q / binary64 (10 ^ 3)))) ''PH/s'')) [])
     = 2000 / q" .
  have "\<bar>2000 / q - 2024 / q\<bar> = 24 / q"
    using q by (simp add: field_simps)
  moreover have "\<bar>2024 / q\<bar> / 100 = (2024 / 100) / q"
    using q by simp
  moreover have "(2024 / 100) / q < 24 / q"
    by (rule divide_strict_right_mono) (use q in simp_all)
  ultimately have "\<bar>2024 / q\<bar> / 100 < \<bar>2000 / q - 2024 / q\<bar>"
    by simp
  with r v show ?thesis unfolding q_def by blast
qed

text \<open>
  C7 as amended: for a unit of the table with factor \<open>f\<close> and a value \<open>v\<close> in TH/s
  such that neither the float division \<open>v / f\<close> nor the float product taken back
  overflows or underflows, converting \<open>v\<close> to the unit and normalizing the result
  gives \<open>v\<close> again up to the relative error \<open>2u + u\<^sup>2\<close> of two roundings, where
  \<open>u = 1 / 2 ^ 53\<close>.
\<close>

theorem hashrate_round_trip:
  assumes "map_of (factors binary64) (upper native) = Some f"
    and "hashrate data = Some hr" and "rate hr = Val (binary64 (v / f))"
    and "unit hr = Val native"
    and "in_normal_range (v / f)" and "in_normal_range (binary64 (v / f) * f)"
  shows "\<bar>hashrate_to_ths binary64 data - v\<bar> \<le> (2 * (1 / 2 ^ 53) + (1 / 2 ^ 53)\<^sup>2) * \<bar>v\<bar>"
proof -
  have f: "f \<noteq> 0" using assms(1) by (rule factors_binary64_nonzero)
  have res: "hashrate_to_ths binary64 data = binary64 (binary64 (v / f) * f)"
    using assms(1-4) by (simp add: hashrate_to_ths_def factors_get_def)
  have "(0::real) \<le> 1 / 2 ^ 53" by simp
  then show ?thesis
    unfolding res
    using f binary64_rel_error [OF assms(5)] binary64_rel_error [OF assms(6)]
    by (rule round_trip_bound)
qed

theorem hashrate_round_trip_witness:
  "\<bar>hashrate_to_ths binary64
      (example_data (Val (Some True))
         (Some (example_rate (Val (binary64 (1 / binary64 (10 ^ 3)))) ''PH/s'')) []) - 1\<bar>
     \<le> (2 * (1 / 2 ^ 53) + (1 / 2 ^ 53)\<^sup>2) * \<bar>1\<bar>"
proof -
  have f: "map_of (factors binary64) (upper ''PH/s'') = Some (binary64 (10 ^ 3))"
    by (simp add: factors_def upper_def upper_char_def)
  have q: "in_normal_range (1 / binary64 (10 ^ 3))"
    by (simp add: binary64_1000 in_normal_range_def min_normal_def max_float_def)
  have "\<bar>binary64 (1 / 10 ^ 3) - 1 / 10 ^ 3\<bar> \<le> (1 / 2 ^ 53) * \<bar>1 / 10 ^ 3\<bar>"
    by (rule binary64_rel_error) (simp add: in_normal_range_def min_normal_def max_float_def)
  then have "\<bar>binary64 (1 / 1000) - 1 / 1000\<bar> \<le> 1 / 2000"
    by simp
  then have "1 / 2 \<le> binary64 (1 / 1000) * 1000" "binary64 (1 / 1000) * 1000 \<le> 2"
    by linarith+
  then have p: "in_normal_range (binary64 (1 / binary64 (10 ^ 3)) * binary64 (10 ^ 3))"
    by (simp add: binary64_1000 in_normal_range_def min_normal_def max_float_def)
  show ?thesis
    using hashrate_round_trip [OF f _ _ _ q p,
        of "example_data (Val (Some True))
         (Some (example_rate (Val (binary64 (1 / binary64 (10 ^ 3)))) ''PH/s'')) []"
         "example_rate (Val (binary64 (1 / binary64 (10 ^ 3)))) ''PH/s''"]
    by (simp add: example_data_def example_rate_def)
qed





section \<open>Dispatch\<close>

















section \<open>Scan button and monitor\<close>

text \<open>A press of the scan button while the flag is set only sets the message.\<close>

lemma on_scan_rejected:
  "scan_running s \<Longrightarrow> on_scan s = s\<lparr>status_var := Already_scanning\<rparr>"
  by (simp add: on_scan_def)

lemma step_manual_invariant:
  assumes "manual_scans s + done_pending s = (if scan_running s then 1 else 0)"
    and "step s e = Some s'"
  shows "manual_scans s' + done_pending s' = (if scan_running s' then 1 else 0)"
  using assms
  by (cases e) (auto simp: on_scan_def start_scan_def on_monitor_toggle_def scan_done_def
      split: if_splits)

lemma run_manual_invariant:
  "manual_scans s + done_pending s = (if scan_running s then 1 else 0) \<Longrightarrow>
   run s es = Some s' \<Longrightarrow>
   manual_scans s' + done_pending s' = (if scan_running s' then 1 else 0)"
proof (induction es arbitrary: s)
  case Nil
  then show ?case by simp
next
  case (Cons e es)
  then show ?case
    by (auto split: option.splits dest: step_manual_invariant)
qed

text \<open>The scans started by the button exclude each other: the flag guards them.\<close>

lemma manual_scans_exclusive:
  assumes "run init_state es = Some s"
  shows "manual_scans s \<le> 1 \<and> (0 < manual_scans s \<longrightarrow> scan_running s)"
proof -
  have "manual_scans s + done_pending s = (if scan_running s then 1 else 0)"
    using _ assms by (rule run_manual_invariant) (simp add: init_state_def)
  then show ?thesis by (auto split: if_splits)
qed

text \<open>
  C1: the monitor is started, its thread enters its first scan, and the scan button
  is pressed before that scan returns. The monitor does not set the flag, so the
  press is not rejected: it starts a second scan, and two scans are running.
\<close>

theorem monitor_scan_not_guarded:
  "map_option scan_running (run init_state [On_monitor_toggle, Monitor_loop_test]) = Some False
   \<and> map_option monitor_scans (run init_state [On_monitor_toggle, Monitor_loop_test]) = Some 1
   \<and> map_option status_var (run init_state [On_monitor_toggle, Monitor_loop_test, On_scan])
       = Some Scanning_subnet
   \<and> map_option scans_in_flight (run init_state [On_monitor_toggle, Monitor_loop_test, On_scan])
       = Some 2"
  by (simp add: init_state_def on_monitor_toggle_def on_scan_def start_scan_def scans_in_flight_def)

end
